theory Spec2Isabelle
  imports Main "HOL-Library.Word"
begin

unbundle bit_operations_syntax

section \<open>Machine types and error codes\<close>

text \<open>
  The engine is C on an LP64 little-endian target: \<open>size_t\<close>, \<open>uint64_t\<close> and
  \<open>uintptr_t\<close> are 64-bit words, \<open>int\<close> and \<open>int32_t\<close> are 32-bit, \<open>char\<close> is a
  signed byte (as it is on x86-64).  Offsets into the region are 64-bit words, so pointer
  arithmetic wraps as it does in the machine.
\<close>

type_synonym byte = "8 word"
type_synonym u64 = "64 word"
type_synonym i32 = "32 word"

datatype hm_error_t =
    HM_OK
  | HM_MAP_FAILED
  | HM_LOCK_FAILED
  | HM_MEMORY_SIZE_TOO_SMALL
  | HM_NO_SPACE
  | HM_NO_EMPTY_BUCKET
  | HM_NO_EMPTY_FREE_BLOCK
  | HM_NOT_FOUND

definition SIZE_MAX :: u64 where
  "SIZE_MAX = - 1"

section \<open>Region sizing (\<open>hm_calc_required_memory_size\<close>)\<close>

text \<open>
  \<open>hashmap_stat_t\<close>.  The three counts are \<open>int32_t\<close> fields: a \<open>size_t\<close> assigned to
  them is truncated, and they are sign-extended when they take part in \<open>size_t\<close>
  arithmetic again.
\<close>

record hashmap_stat_t =
  st_memory_size :: u64
  st_max_bucket_flags :: i32
  st_max_buckets :: i32
  st_max_free_blocks :: i32
  st_bucket_flags_size :: u64
  st_buckets_size :: u64
  st_free_blocks_size :: u64
  st_header_size :: u64
  st_data_size :: u64
  st_record_header_size :: u64
  st_record_size :: u64
  st_used_buckets :: u64
  st_used_free_blocks :: u64
  st_used_data_size :: u64

definition stat_zero :: hashmap_stat_t where
  "stat_zero = \<lparr> st_memory_size = 0, st_max_bucket_flags = 0, st_max_buckets = 0,
     st_max_free_blocks = 0, st_bucket_flags_size = 0, st_buckets_size = 0,
     st_free_blocks_size = 0, st_header_size = 0, st_data_size = 0,
     st_record_header_size = 0, st_record_size = 0, st_used_buckets = 0,
     st_used_free_blocks = 0, st_used_data_size = 0 \<rparr>"

text \<open>\<open>sizeof(hashmap_header_t)\<close>: one \<open>size_t\<close>, four \<open>int32_t\<close>, five \<open>size_t\<close>.\<close>

definition sizeof_header :: u64 where
  "sizeof_header = 64"

text \<open>\<open>sizeof(hashmap_record_t)\<close>: the hash and the two sizes.\<close>

definition sizeof_record :: u64 where
  "sizeof_record = 24"

text \<open>\<open>ALIGNMENT_OF(hashmap_region_t)\<close> is the alignment of \<open>uintptr_t\<close>, 8.\<close>

definition get_aligned_size :: "u64 \<Rightarrow> u64" where
  "get_aligned_size sz = (sz + 8 - 1) AND NOT (8 - 1)"

definition calc_counts :: "hashmap_stat_t \<Rightarrow> u64 \<Rightarrow> u64 \<Rightarrow> hashmap_stat_t" where
  "calc_counts s nbuckets nfree =
     (let s1 = s\<lparr> st_max_bucket_flags := ucast ((nbuckets + 63) div 64),
                  st_max_buckets := ucast nbuckets,
                  st_max_free_blocks := ucast nfree \<rparr>;
          s2 = s1\<lparr> st_bucket_flags_size := scast (st_max_bucket_flags s1) * 8,
                   st_buckets_size := nbuckets * 8,
                   st_free_blocks_size := nfree * 8,
                   st_header_size := sizeof_header \<rparr>;
          s3 = s2\<lparr> st_memory_size := st_header_size s2 + st_bucket_flags_size s2
                                       + st_buckets_size s2 + st_free_blocks_size s2 \<rparr>
      in s3\<lparr> st_record_header_size := sizeof_record + 2 \<rparr>)"

text \<open>The block guarded by \<open>if (record_kv_size)\<close>.\<close>

definition calc_by_record :: "hashmap_stat_t \<Rightarrow> u64 \<Rightarrow> hashmap_stat_t" where
  "calc_by_record s kv =
     (if kv = 0 then s
      else
        (let s1 = s\<lparr> st_record_size := st_record_header_size s + kv \<rparr>;
             s2 = s1\<lparr> st_data_size := st_record_size s1 * scast (st_max_buckets s1) \<rparr>
         in s2\<lparr> st_memory_size := st_memory_size s2 + st_data_size s2 \<rparr>))"

text \<open>The block guarded by \<open>if (memory_size)\<close>; it follows the previous one, it is not
  its \<open>else\<close>.\<close>

definition calc_by_memory :: "hashmap_stat_t \<Rightarrow> u64 \<Rightarrow> hashmap_stat_t" where
  "calc_by_memory s msize =
     (if msize = 0 then s
      else
        (let s1 = s\<lparr> st_record_size := 0, st_data_size := 0 \<rparr>
         in if st_memory_size s1 < msize
            then (let s2 = s1\<lparr> st_data_size := msize - st_memory_size s1 \<rparr>
                  in s2\<lparr> st_record_size := st_data_size s2 div st_record_header_size s2 \<rparr>)
            else s1))"

definition hm_calc_required_memory_size ::
  "hashmap_stat_t \<Rightarrow> u64 \<Rightarrow> u64 \<Rightarrow> u64 \<Rightarrow> u64 \<Rightarrow> hm_error_t \<times> hashmap_stat_t" where
  "hm_calc_required_memory_size s msize nbuckets nfree kv =
     (if nbuckets = 0 \<and> msize = 0 then (HM_MEMORY_SIZE_TOO_SMALL, s)
      else
        (let nbuckets1 = (if nbuckets = 0 then (msize div 4) div 8 else nbuckets);
             nfree1 = (if nfree = 0 then nbuckets1 else nfree);
             s1 = calc_counts s nbuckets1 nfree1;
             s2 = calc_by_record s1 kv;
             s3 = calc_by_memory s2 msize
         in (HM_OK, s3\<lparr> st_memory_size := get_aligned_size (st_memory_size s3) \<rparr>)))"

section \<open>The region\<close>

text \<open>
  The region is the header, the bucket-flags words, the bucket slots, the freelist and the
  data arena.  The header fields and the three arrays are kept as fields of the record;
  the arena is a byte store addressed by region offset, since records and free blocks are
  read and written there at arbitrary offsets and may overlap.  The \<open>int32_t\<close> counts of
  the header are integers: \<open>hm_init\<close> stores what the \<open>int32_t\<close> fields of the layout
  hold, negative when the requested count has bit 31 set.  The arrays keep their full
  capacity, entries beyond \<open>num_free_blocks\<close> included.
\<close>

record region =
  memory_size :: u64
  max_bucket_flags :: int
  max_buckets :: int
  max_free_blocks :: int
  num_free_blocks :: int
  bucket_flags_offset :: u64
  buckets_offset :: u64
  freelist_offset :: u64
  data_offset :: u64
  data_tail :: u64
  bucket_flags :: "u64 list"
  buckets :: "u64 list"
  freelist :: "u64 list"
  data :: "u64 \<Rightarrow> byte"

subsection \<open>Bytes of the arena\<close>

fun le_word :: "byte list \<Rightarrow> u64" where
  "le_word [] = 0"
| "le_word (b # bs) = ucast b OR push_bit 8 (le_word bs)"

fun le_bytes :: "nat \<Rightarrow> u64 \<Rightarrow> byte list" where
  "le_bytes 0 w = []"
| "le_bytes (Suc n) w = ucast w # le_bytes n (drop_bit 8 w)"

text \<open>\<open>memcpy(dst, src, n)\<close> into the arena.\<close>

fun write_bytes :: "(u64 \<Rightarrow> byte) \<Rightarrow> u64 \<Rightarrow> byte list \<Rightarrow> (u64 \<Rightarrow> byte)" where
  "write_bytes m a [] = m"
| "write_bytes m a (b # bs) = write_bytes (m(a := b)) (a + 1) bs"

fun read_bytes :: "(u64 \<Rightarrow> byte) \<Rightarrow> u64 \<Rightarrow> nat \<Rightarrow> byte list" where
  "read_bytes m a 0 = []"
| "read_bytes m a (Suc n) = m a # read_bytes m (a + 1) n"

text \<open>Reading and writing a \<open>size_t\<close> or \<open>uint64_t\<close> through a pointer into the arena.\<close>

definition load64 :: "(u64 \<Rightarrow> byte) \<Rightarrow> u64 \<Rightarrow> u64" where
  "load64 m a = le_word [m a, m (a + 1), m (a + 2), m (a + 3),
                         m (a + 4), m (a + 5), m (a + 6), m (a + 7)]"

definition store64 :: "(u64 \<Rightarrow> byte) \<Rightarrow> u64 \<Rightarrow> u64 \<Rightarrow> (u64 \<Rightarrow> byte)" where
  "store64 m a w = write_bytes m a (le_bytes 8 w)"

text \<open>\<open>memcmp(p, key, key_len) == 0\<close>.\<close>

fun memcmp_eq :: "(u64 \<Rightarrow> byte) \<Rightarrow> u64 \<Rightarrow> byte list \<Rightarrow> bool" where
  "memcmp_eq m a [] = True"
| "memcmp_eq m a (c # cs) = (if m a = c then memcmp_eq m (a + 1) cs else False)"

subsection \<open>Records\<close>

definition r_hash :: "(u64 \<Rightarrow> byte) \<Rightarrow> u64 \<Rightarrow> u64" where
  "r_hash m r = load64 m r"

definition r_key_size :: "(u64 \<Rightarrow> byte) \<Rightarrow> u64 \<Rightarrow> u64" where
  "r_key_size m r = load64 m (r + 8)"

definition r_value_size :: "(u64 \<Rightarrow> byte) \<Rightarrow> u64 \<Rightarrow> u64" where
  "r_value_size m r = load64 m (r + 16)"

definition hm_get_record_key :: "u64 \<Rightarrow> u64" where
  "hm_get_record_key r = r + sizeof_record"

definition hm_get_record_value :: "(u64 \<Rightarrow> byte) \<Rightarrow> u64 \<Rightarrow> u64" where
  "hm_get_record_value m r = hm_get_record_key r + r_key_size m r + 1"

definition hm_get_record_size :: "(u64 \<Rightarrow> byte) \<Rightarrow> u64 \<Rightarrow> u64" where
  "hm_get_record_size m r = sizeof_record + r_key_size m r + r_value_size m r + 2"

section \<open>Initialisation\<close>

text \<open>
  \<open>hm_init\<close>.  Whether the lock could be created and whether \<open>mmap\<close> succeeded are
  inputs.  A fresh mapping is zero-filled.
\<close>

definition hm_init :: "bool \<Rightarrow> bool \<Rightarrow> u64 \<Rightarrow> u64 \<Rightarrow> u64 \<Rightarrow> hm_error_t + region" where
  "hm_init lock_ok map_ok msize0 nbuckets nfree =
     (let msize = get_aligned_size msize0;
          res = hm_calc_required_memory_size stat_zero msize nbuckets nfree 0;
          s = snd res
      in if fst res = HM_OK then
           (if msize < st_memory_size s then Inl HM_MEMORY_SIZE_TOO_SMALL
            else if lock_ok then
              (if map_ok then
                 Inr \<lparr> memory_size = msize,
                       max_bucket_flags = sint (st_max_bucket_flags s),
                       max_buckets = sint (st_max_buckets s),
                       max_free_blocks = sint (st_max_free_blocks s),
                       num_free_blocks = 0,
                       bucket_flags_offset = sizeof_header,
                       buckets_offset = sizeof_header + st_bucket_flags_size s,
                       freelist_offset = sizeof_header + st_bucket_flags_size s
                                         + st_buckets_size s,
                       data_offset = sizeof_header + st_bucket_flags_size s
                                     + st_buckets_size s + st_free_blocks_size s,
                       data_tail = sizeof_header + st_bucket_flags_size s
                                   + st_buckets_size s + st_free_blocks_size s,
                       bucket_flags = replicate (nat (sint (st_max_bucket_flags s))) 0,
                       buckets = replicate (nat (sint (st_max_buckets s))) 0,
                       freelist = replicate (nat (sint (st_max_free_blocks s))) 0,
                       data = (\<lambda>a. 0) \<rparr>
               else Inl HM_MAP_FAILED)
            else Inl HM_LOCK_FAILED)
         else Inl HM_MEMORY_SIZE_TOO_SMALL)"

section \<open>Freelist allocator\<close>

definition has_empty_free_block :: "region \<Rightarrow> bool" where
  "has_empty_free_block reg = (num_free_blocks reg < max_free_blocks reg)"

text \<open>
  The binary search of \<open>add_free_block\<close>; \<open>left\<close>, \<open>right\<close> and \<open>mid\<close> are \<open>ssize_t\<close>,
  and \<open>right\<close> reaches \<open>-1\<close>.  The sum \<open>left + right\<close> is never negative inside the loop,
  so C's division is \<open>div\<close>.
\<close>

function add_search :: "u64 list \<Rightarrow> (u64 \<Rightarrow> byte) \<Rightarrow> u64 \<Rightarrow> int \<Rightarrow> int \<Rightarrow> int" where
  "add_search fl m sz left right =
     (if left \<le> right then
        (if load64 m (fl ! nat ((left + right) div 2)) < sz
         then add_search fl m sz ((left + right) div 2 + 1) right
         else add_search fl m sz left ((left + right) div 2 - 1))
      else left)"
  by pat_completeness auto
termination
  by (relation "measure (\<lambda>(fl, m, sz, left, right). nat (right - left + 1))") auto

text \<open>The insertion point \<open>left\<close> that \<open>add_free_block\<close> computes when the freelist is
  not empty (\<open>size\<close> already counts the 8 bytes added on entry).\<close>

definition add_free_block_left :: "region \<Rightarrow> u64 \<Rightarrow> int" where
  "add_free_block_left reg sz0 =
     add_search (freelist reg) (data reg) (sz0 + 8) 0 (num_free_blocks reg - 1)"

text \<open>The loop under the comment \<open>sort\<close>, after a merge.\<close>

function add_sort :: "u64 list \<Rightarrow> (u64 \<Rightarrow> byte) \<Rightarrow> u64 \<Rightarrow> u64 \<Rightarrow> int \<Rightarrow> int \<Rightarrow> u64 list" where
  "add_sort fl m offset sz i n =
     (if i < n then
        (if load64 m (fl ! nat (i + 1)) < sz
         then add_sort (fl[nat i := fl ! nat (i + 1), nat (i + 1) := offset]) m offset sz (i + 1) n
         else fl)
      else fl)"
  by pat_completeness auto
termination
  by (relation "measure (\<lambda>(fl, m, offset, sz, i, n). nat (n - i))") auto

text \<open>The loop that moves the entries \<open>left .. num_free_blocks - 1\<close> one place up.\<close>

function add_shift :: "u64 list \<Rightarrow> int \<Rightarrow> int \<Rightarrow> u64 list" where
  "add_shift fl i left =
     (if left \<le> i then add_shift (fl[nat (i + 1) := fl ! nat i]) (i - 1) left else fl)"
  by pat_completeness auto
termination
  by (relation "measure (\<lambda>(fl, i, left). nat (i - left + 1))") auto

text \<open>
  \<open>add_free_block\<close>.  \<open>None\<close> is a failed \<open>assert\<close> (the process aborts).  The function
  adds 8 to the size it is given and stores the sum in the first 8 bytes of the block.
\<close>

definition add_free_block :: "region \<Rightarrow> u64 \<Rightarrow> u64 \<Rightarrow> region option" where
  "add_free_block reg offset sz0 =
     (if has_empty_free_block reg then
        (if sz0 < 8 then None
         else
           (let sz = sz0 + 8 in
            if 0 < num_free_blocks reg then
              (let left = add_free_block_left reg sz0 in
               if offset + sz = freelist reg ! nat left then
                 (let sz1 = sz + load64 (data reg) (freelist reg ! nat left);
                      fl = (freelist reg)[nat left := offset];
                      m = store64 (data reg) offset sz1
                  in Some (reg\<lparr> freelist :=
                                   add_sort fl m offset sz1 left (num_free_blocks reg - 1),
                                 data := m \<rparr>))
               else
                 (let fl = add_shift (freelist reg) (num_free_blocks reg - 1) left
                  in Some (reg\<lparr> freelist := fl[nat left := offset],
                                 data := store64 (data reg) offset sz,
                                 num_free_blocks := num_free_blocks reg + 1 \<rparr>)))
            else
              Some (reg\<lparr> freelist := (freelist reg)[0 := offset],
                          data := store64 (data reg) offset sz,
                          num_free_blocks := num_free_blocks reg + 1 \<rparr>)))
      else None)"

function remove_shift :: "u64 list \<Rightarrow> int \<Rightarrow> int \<Rightarrow> u64 list" where
  "remove_shift fl i n =
     (if i < n then remove_shift (fl[nat i := fl ! nat (i + 1)]) (i + 1) n else fl)"
  by pat_completeness auto
termination
  by (relation "measure (\<lambda>(fl, i, n). nat (n - i))") auto

definition remove_free_block :: "region \<Rightarrow> int \<Rightarrow> region" where
  "remove_free_block reg idx =
     reg\<lparr> freelist := remove_shift (freelist reg) idx (num_free_blocks reg - 1),
          num_free_blocks := num_free_blocks reg - 1 \<rparr>"

text \<open>
  The binary search of \<open>find_free_block\<close>: \<open>Inl mid\<close> when the block at \<open>mid\<close> has exactly
  the required size, \<open>Inr left\<close> when the loop ends.
\<close>

function find_search :: "u64 list \<Rightarrow> (u64 \<Rightarrow> byte) \<Rightarrow> u64 \<Rightarrow> int \<Rightarrow> int \<Rightarrow> int + int" where
  "find_search fl m required_space left right =
     (if left \<le> right then
        (if load64 m (fl ! nat ((left + right) div 2)) = required_space
         then Inl ((left + right) div 2)
         else if required_space < load64 m (fl ! nat ((left + right) div 2))
         then find_search fl m required_space left ((left + right) div 2 - 1)
         else find_search fl m required_space ((left + right) div 2 + 1) right)
      else Inr left)"
  by pat_completeness auto
termination
  by (relation "measure (\<lambda>(fl, m, required_space, left, right). nat (right - left + 1))") auto

text \<open>\<open>find_free_block\<close>: the offset found, or \<open>SIZE_MAX\<close>, and the region after it.\<close>

definition find_free_block :: "region \<Rightarrow> u64 \<Rightarrow> (u64 \<times> region) option" where
  "find_free_block reg required_space =
     (if num_free_blocks reg = 0 then Some (SIZE_MAX, reg)
      else
        (case find_search (freelist reg) (data reg) required_space 0
                (num_free_blocks reg - 1) of
           Inl mid \<Rightarrow> Some (freelist reg ! nat mid, remove_free_block reg mid)
         | Inr left \<Rightarrow>
             if left < num_free_blocks reg then
               (let offset = freelist reg ! nat left;
                    block_size = load64 (data reg) offset;
                    remaining_size = block_size - required_space
                in if remaining_size = 0 then Some (offset, remove_free_block reg left)
                   else if remaining_size < 8 then Some (SIZE_MAX, reg)
                   else if has_empty_free_block reg then
                     (case add_free_block (remove_free_block reg left)
                             (offset + required_space) remaining_size of
                        None \<Rightarrow> None
                      | Some reg1 \<Rightarrow> Some (offset, reg1))
                   else Some (SIZE_MAX, reg))
             else Some (SIZE_MAX, reg)))"

section \<open>Bucket table\<close>

text \<open>
  A key reaches the map as a pointer and a length.  The model has the caller's buffer as
  the byte list \<open>key\<close>, the bytes in memory from the pointer on, and the length as
  \<open>key_len\<close>: the key proper is \<open>take key_len key\<close>.  The list goes as far as the C
  string at the pointer does, and at least \<open>key_len\<close> bytes far: its end is the NUL that
  ends the C string, when that NUL lies beyond the key.  So \<open>hm_insert(m, "ab", 1, ...)\<close>
  has the buffer \<open>[97, 98]\<close> and \<open>key_len = 1\<close>, and a Lua string, which ends with a NUL
  after its last byte, is the list of its bytes with \<open>key_len\<close> their number.

  \<open>hash_string\<close> walks the buffer as a C string: it stops at the first zero byte and is
  not given the key's length.  \<open>int c = *key++\<close> sign-extends the byte, and adding it to
  the \<open>uint64_t\<close> hash extends it to 64 bits.
\<close>

fun hash_loop :: "u64 \<Rightarrow> byte list \<Rightarrow> u64" where
  "hash_loop hash [] = hash"
| "hash_loop hash (c # key) =
     (if c = 0 then hash else hash_loop ((push_bit 5 hash + hash) + scast c) key)"

definition hash_string :: "byte list \<Rightarrow> u64" where
  "hash_string key = hash_loop 5381 key"

text \<open>
  The mask \<open>1 << (bucket_index % 64)\<close>.  The constant \<open>1\<close> is an \<open>int\<close>, so the shift is
  a 32-bit shift: the machine instruction takes the count modulo 32, and the \<open>int\<close>
  result is sign-extended when it meets the \<open>uint64_t\<close> word.
\<close>

definition int_shl1 :: "nat \<Rightarrow> i32" where
  "int_shl1 k = push_bit (k mod 32) 1"

definition set_used_bits :: "region \<Rightarrow> nat \<Rightarrow> region" where
  "set_used_bits reg bucket_index =
     reg\<lparr> bucket_flags := (bucket_flags reg)[bucket_index div 64 :=
             bucket_flags reg ! (bucket_index div 64) OR scast (int_shl1 (bucket_index mod 64))] \<rparr>"

definition unset_used_bits :: "region \<Rightarrow> nat \<Rightarrow> region" where
  "unset_used_bits reg bucket_index =
     reg\<lparr> bucket_flags := (bucket_flags reg)[bucket_index div 64 :=
             bucket_flags reg ! (bucket_index div 64)
               AND scast (NOT (int_shl1 (bucket_index mod 64)))] \<rparr>"

definition is_used_bucket :: "region \<Rightarrow> nat \<Rightarrow> u64" where
  "is_used_bucket reg bucket_index =
     drop_bit (bucket_index mod 64) (bucket_flags reg ! (bucket_index div 64)) AND 1"

text \<open>The test \<open>r->hash == hash && r->key_size == key_len && memcmp(...) == 0\<close>.\<close>

definition record_matches ::
  "(u64 \<Rightarrow> byte) \<Rightarrow> u64 \<Rightarrow> u64 \<Rightarrow> byte list \<Rightarrow> nat \<Rightarrow> bool" where
  "record_matches m r hash key key_len =
     (r_hash m r = hash \<and> r_key_size m r = of_nat key_len
      \<and> memcmp_eq m (hm_get_record_key r) (take key_len key))"

text \<open>
  The probing loop of \<open>find_record\<close>, with \<open>*found_index\<close> as the accumulator
  \<open>found_index\<close>.  The result is the record's offset (\<open>None\<close> for \<open>NULL\<close>) and the final
  \<open>*found_index\<close>.  \<open>index\<close>, \<open>i\<close> and \<open>bucket_index\<close> are \<open>int\<close>: where the sum
  \<open>index + i\<close> leaves the range of \<open>int\<close> the behaviour is undefined, which is the outer
  \<open>None\<close>.  Inside the loop \<open>max_buckets\<close> is positive and the sum is not negative, so
  C's \<open>%\<close> is \<open>mod\<close>.
\<close>

function find_loop ::
  "region \<Rightarrow> byte list \<Rightarrow> nat \<Rightarrow> u64 \<Rightarrow> int \<Rightarrow> int \<Rightarrow> int \<Rightarrow> (u64 option \<times> int) option" where
  "find_loop reg key key_len hash index found_index i =
     (if i < max_buckets reg then
        (if 2147483647 < index + i then None
         else if buckets reg ! nat ((index + i) mod max_buckets reg) = 0 then
           Some (None, if found_index = max_buckets reg
                       then (index + i) mod max_buckets reg else found_index)
         else if is_used_bucket reg (nat ((index + i) mod max_buckets reg)) = 0 then
           find_loop reg key key_len hash index found_index (i + 1)
         else if record_matches (data reg)
                   (buckets reg ! nat ((index + i) mod max_buckets reg)) hash key key_len then
           Some (Some (buckets reg ! nat ((index + i) mod max_buckets reg)),
                 (index + i) mod max_buckets reg)
         else find_loop reg key key_len hash index found_index (i + 1))
      else Some (None, found_index))"
  by pat_completeness auto
termination
  by (relation "measure (\<lambda>(reg, key, key_len, hash, index, found_index, i).
        nat (max_buckets reg - i))") auto

text \<open>
  \<open>int index = hash % hdr->max_buckets\<close>: the \<open>int32_t\<close> count is converted to
  \<open>uint64_t\<close> for the division, and the remainder to \<open>int\<close>.
\<close>

definition home_index :: "region \<Rightarrow> u64 \<Rightarrow> int" where
  "home_index reg hash =
     sint (word_of_int (uint hash mod (max_buckets reg mod 2 ^ 64)) :: i32)"

text \<open>
  \<open>find_record\<close>.  \<open>hash % hdr->max_buckets\<close> traps when \<open>max_buckets\<close> is zero: that is
  \<open>None\<close>.  A buffer shorter than \<open>key_len\<close> stands for no call (the key would lie partly
  outside the memory the model was given): that is \<open>None\<close> too.
\<close>

definition find_record :: "region \<Rightarrow> byte list \<Rightarrow> nat \<Rightarrow> (u64 option \<times> int) option" where
  "find_record reg key key_len =
     (if max_buckets reg = 0 then None
      else if length key < key_len then None
      else find_loop reg key key_len (hash_string key) (home_index reg (hash_string key))
             (max_buckets reg) 0)"

section \<open>Map operations\<close>

text \<open>
  The lines of \<open>hm_insert\<close> that write the new record at \<open>insert_offset\<close>: first the
  three header fields, the key and its NUL, then, through \<open>hm_get_record_value\<close> (which
  reads the key size back from the record), the value and its NUL.
\<close>

definition write_record_key ::
  "(u64 \<Rightarrow> byte) \<Rightarrow> u64 \<Rightarrow> byte list \<Rightarrow> nat \<Rightarrow> nat \<Rightarrow> (u64 \<Rightarrow> byte)" where
  "write_record_key m newr key key_len value_len =
     (let m1 = store64 m newr (hash_string key);
          m2 = store64 m1 (newr + 8) (of_nat key_len);
          m3 = store64 m2 (newr + 16) (of_nat value_len);
          m4 = write_bytes m3 (hm_get_record_key newr) (take key_len key)
      in m4(hm_get_record_key newr + of_nat key_len := 0))"

definition write_record ::
  "(u64 \<Rightarrow> byte) \<Rightarrow> u64 \<Rightarrow> byte list \<Rightarrow> nat \<Rightarrow> byte list \<Rightarrow> (u64 \<Rightarrow> byte)" where
  "write_record m newr key key_len val =
     (let m5 = write_record_key m newr key key_len (length val);
          ptr = hm_get_record_value m5 newr;
          m6 = write_bytes m5 ptr val
      in m6(ptr + of_nat (length val) := 0))"

text \<open>
  \<open>hm_insert\<close> from the point where the old record, if any, has been given to the
  freelist: place the record at the tail or in a free block.
\<close>

definition place_record ::
  "region \<Rightarrow> int \<Rightarrow> byte list \<Rightarrow> nat \<Rightarrow> byte list \<Rightarrow> (hm_error_t \<times> region) option" where
  "place_record reg bucket_index key key_len val =
     (let required_space = sizeof_record + of_nat key_len + of_nat (length val) + 2;
          available_space = memory_size reg - data_tail reg
      in if available_space < required_space then
           (case find_free_block reg required_space of
              None \<Rightarrow> None
            | Some (free_block_offset, reg1) \<Rightarrow>
                if free_block_offset = SIZE_MAX then Some (HM_NO_SPACE, reg1)
                else
                  (let reg2 = set_used_bits
                                (reg1\<lparr> buckets :=
                                   (buckets reg1)[nat bucket_index := free_block_offset] \<rparr>)
                                (nat bucket_index)
                   in Some (HM_OK,
                            reg2\<lparr> data :=
                              write_record (data reg2) free_block_offset key key_len val \<rparr>)))
         else
           (let reg2 = set_used_bits
                         (reg\<lparr> buckets := (buckets reg)[nat bucket_index := data_tail reg] \<rparr>)
                         (nat bucket_index)
            in Some (HM_OK,
                     reg2\<lparr> data := write_record (data reg2) (data_tail reg) key key_len val,
                           data_tail := data_tail reg + required_space \<rparr>)))"

text \<open>
  \<open>hm_insert\<close>.  The first argument says whether the write lock was taken.  The value
  is the list of the \<open>value_len\<close> bytes at the value pointer.
\<close>

definition hm_insert ::
  "bool \<Rightarrow> region \<Rightarrow> byte list \<Rightarrow> nat \<Rightarrow> byte list \<Rightarrow> (hm_error_t \<times> region) option" where
  "hm_insert lock_ok reg key key_len val =
     (if lock_ok then
        (case find_record reg key key_len of
           None \<Rightarrow> None
         | Some (None, bucket_index) \<Rightarrow>
             if bucket_index = max_buckets reg then Some (HM_NO_EMPTY_BUCKET, reg)
             else place_record reg bucket_index key key_len val
         | Some (Some r, bucket_index) \<Rightarrow>
             if r_value_size (data reg) r = of_nat (length val) then
               Some (HM_OK,
                     reg\<lparr> data := write_bytes (data reg) (hm_get_record_value (data reg) r) val \<rparr>)
             else if has_empty_free_block reg then
               (case add_free_block reg r (hm_get_record_size (data reg) r) of
                  None \<Rightarrow> None
                | Some reg1 \<Rightarrow> place_record reg1 bucket_index key key_len val)
             else Some (HM_NO_EMPTY_FREE_BLOCK, reg))
      else Some (HM_LOCK_FAILED, reg))"

definition hm_delete ::
  "bool \<Rightarrow> region \<Rightarrow> byte list \<Rightarrow> nat \<Rightarrow> (hm_error_t \<times> region) option" where
  "hm_delete lock_ok reg key key_len =
     (if lock_ok then
        (case find_record reg key key_len of
           None \<Rightarrow> None
         | Some (None, bucket_index) \<Rightarrow> Some (HM_NOT_FOUND, reg)
         | Some (Some r, bucket_index) \<Rightarrow>
             if has_empty_free_block reg then
               (case add_free_block reg r (hm_get_record_size (data reg) r) of
                  None \<Rightarrow> None
                | Some reg1 \<Rightarrow> Some (HM_OK, unset_used_bits reg1 (nat bucket_index)))
             else Some (HM_NO_EMPTY_FREE_BLOCK, reg))
      else Some (HM_LOCK_FAILED, reg))"

text \<open>
  \<open>hm_search\<close>: the error code and, on a hit, the pointer \<open>*value\<close> (as a region offset)
  with \<open>*value_len\<close>.
\<close>

definition hm_search ::
  "bool \<Rightarrow> region \<Rightarrow> byte list \<Rightarrow> nat \<Rightarrow> (hm_error_t \<times> (u64 \<times> u64) option) option" where
  "hm_search lock_ok reg key key_len =
     (if lock_ok then
        (case find_record reg key key_len of
           None \<Rightarrow> None
         | Some (None, bucket_index) \<Rightarrow> Some (HM_NOT_FOUND, None)
         | Some (Some r, bucket_index) \<Rightarrow>
             Some (HM_OK, Some (hm_get_record_value (data reg) r, r_value_size (data reg) r)))
      else Some (HM_LOCK_FAILED, None))"

text \<open>The bytes a caller reads through the pointer and length \<open>hm_search\<close> gave it.\<close>

definition value_bytes :: "region \<Rightarrow> u64 \<times> u64 \<Rightarrow> byte list" where
  "value_bytes reg pl = read_bytes (data reg) (fst pl) (unat (snd pl))"

section \<open>Statistics\<close>

definition count_bits :: "u64 \<Rightarrow> u64" where
  "count_bits x0 =
     (let x1 = x0 - (drop_bit 1 x0 AND 0x5555555555555555);
          x2 = (x1 AND 0x3333333333333333) + (drop_bit 2 x1 AND 0x3333333333333333);
          x3 = (x2 + drop_bit 4 x2) AND 0x0F0F0F0F0F0F0F0F
      in drop_bit 56 (x3 * 0x0101010101010101))"

fun count_flags :: "u64 list \<Rightarrow> u64 \<Rightarrow> u64" where
  "count_flags [] count = count"
| "count_flags (w # ws) count = count_flags ws (count + count_bits w)"

definition count_bucket_flags :: "region \<Rightarrow> u64" where
  "count_bucket_flags reg = count_flags (take (nat (max_bucket_flags reg)) (bucket_flags reg)) 0"

definition hm_stat :: "bool \<Rightarrow> hashmap_stat_t \<Rightarrow> region \<Rightarrow> hm_error_t \<times> hashmap_stat_t" where
  "hm_stat lock_ok s reg =
     (if lock_ok then
        (HM_OK,
         s\<lparr> st_memory_size := memory_size reg,
            st_max_bucket_flags := of_int (max_bucket_flags reg),
            st_max_buckets := of_int (max_buckets reg),
            st_max_free_blocks := of_int (max_free_blocks reg),
            st_bucket_flags_size := of_int (max_bucket_flags reg) * 8,
            st_buckets_size := of_int (max_buckets reg) * 8,
            st_free_blocks_size := of_int (max_free_blocks reg) * 8,
            st_header_size := sizeof_header,
            st_data_size := memory_size reg - data_offset reg,
            st_record_header_size := sizeof_record + 2,
            st_record_size := 0,
            st_used_buckets := count_bucket_flags reg,
            st_used_free_blocks := of_int (num_free_blocks reg),
            st_used_data_size := data_tail reg - data_offset reg \<rparr>)
      else (HM_LOCK_FAILED, s))"

section \<open>Call sequences\<close>

text \<open>
  A client of the map, as the Lua binding is: a list of calls made one after the other
  on a region that \<open>hm_init\<close> built, every lock acquisition succeeding.  A key is passed
  as a Lua string is, NUL after its last byte and \<open>key_len\<close> the number of its bytes.
  Each call yields its error code and, for a search that hits, the bytes behind the
  returned pointer and length.
\<close>

datatype hm_op = Insert "byte list" "byte list" | Delete "byte list" | Search "byte list"

fun hm_step :: "region \<Rightarrow> hm_op \<Rightarrow> ((hm_error_t \<times> byte list option) \<times> region) option" where
  "hm_step reg (Insert key val) =
     (case hm_insert True reg key (length key) val of
        None \<Rightarrow> None
      | Some (e, reg1) \<Rightarrow> Some ((e, None), reg1))"
| "hm_step reg (Delete key) =
     (case hm_delete True reg key (length key) of
        None \<Rightarrow> None
      | Some (e, reg1) \<Rightarrow> Some ((e, None), reg1))"
| "hm_step reg (Search key) =
     (case hm_search True reg key (length key) of
        None \<Rightarrow> None
      | Some (e, None) \<Rightarrow> Some ((e, None), reg)
      | Some (e, Some pl) \<Rightarrow> Some ((e, Some (value_bytes reg pl)), reg))"

fun hm_run ::
  "region \<Rightarrow> hm_op list \<Rightarrow> ((hm_error_t \<times> byte list option) list \<times> region) option" where
  "hm_run reg [] = Some ([], reg)"
| "hm_run reg (x # xs) =
     (case hm_step reg x of
        None \<Rightarrow> None
      | Some (e, reg1) \<Rightarrow>
          (case hm_run reg1 xs of
             None \<Rightarrow> None
           | Some (es, reg2) \<Rightarrow> Some (e # es, reg2)))"

definition hm_script ::
  "u64 \<Rightarrow> u64 \<Rightarrow> u64 \<Rightarrow> hm_op list
     \<Rightarrow> ((hm_error_t \<times> byte list option) list \<times> region) option" where
  "hm_script msize nbuckets nfree ops =
     (case hm_init True True msize nbuckets nfree of
        Inl e \<Rightarrow> None
      | Inr reg \<Rightarrow> hm_run reg ops)"

section \<open>Notions used in the statements\<close>

text \<open>
  The 64-bit djb2 hash of a byte string: the recurrence \<open>h \<leftarrow> 33 \<cdot> h + c\<close> from 5381, in
  64-bit arithmetic, over all the bytes it is given, each byte \<open>c\<close> a number from 0 to 255.
\<close>

definition djb2_64 :: "byte list \<Rightarrow> u64" where
  "djb2_64 bs = foldl (\<lambda>h c. h * 33 + ucast c) 5381 bs"

text \<open>The fixed overhead of a layout: header, bucket flags, bucket slots and freelist.\<close>

definition fixed_overhead :: "hashmap_stat_t \<Rightarrow> u64" where
  "fixed_overhead s =
     st_header_size s + st_bucket_flags_size s + st_buckets_size s + st_free_blocks_size s"

text \<open>The arena size a layout asks for when an expected key-value size is given.\<close>

definition record_data_size :: "hashmap_stat_t \<Rightarrow> u64 \<Rightarrow> u64" where
  "record_data_size s kv =
     (if kv = 0 then 0 else (sizeof_record + 2 + kv) * scast (st_max_buckets s))"

text \<open>The stored sizes of the blocks the live part of the freelist points to.\<close>

definition freelist_sizes :: "region \<Rightarrow> u64 list" where
  "freelist_sizes reg =
     map (load64 (data reg)) (take (nat (num_free_blocks reg)) (freelist reg))"

text \<open>
  The bounds of the header: the tail lies between the arena start and the region size,
  and the freelist count is within its capacity.
\<close>

definition region_bounds :: "region \<Rightarrow> bool" where
  "region_bounds reg =
     (data_offset reg \<le> data_tail reg \<and> data_tail reg \<le> memory_size reg
      \<and> num_free_blocks reg \<le> max_free_blocks reg)"

section \<open>Regions of the worked examples\<close>

text \<open>
  A region with 4 buckets and room for 4 free blocks, as \<open>hm_init\<close> lays it out: the
  arena starts at offset 136.  The examples use the one-byte keys \<open>a\<close>, \<open>b\<close>, \<open>c\<close>, \<open>d\<close>
  (bytes 97 to 100), whose home slots are 2, 3, 0 and 1.
\<close>

definition region4 ::
  "u64 \<Rightarrow> u64 \<Rightarrow> int \<Rightarrow> u64 list \<Rightarrow> u64 list \<Rightarrow> u64 list \<Rightarrow> (u64 \<Rightarrow> byte) \<Rightarrow> region" where
  "region4 msize tail nfb flags bks fl m =
     \<lparr> memory_size = msize, max_bucket_flags = 1, max_buckets = 4, max_free_blocks = 4,
       num_free_blocks = nfb, bucket_flags_offset = 64, buckets_offset = 72,
       freelist_offset = 104, data_offset = 136, data_tail = tail,
       bucket_flags = flags, buckets = bks, freelist = fl, data = m \<rparr>"

text \<open>A region with 64 buckets: the arena starts at offset 616.\<close>

definition region64 :: "u64 \<Rightarrow> u64 list \<Rightarrow> u64 list \<Rightarrow> (u64 \<Rightarrow> byte) \<Rightarrow> region" where
  "region64 tail flags bks m =
     \<lparr> memory_size = 1024, max_bucket_flags = 1, max_buckets = 64, max_free_blocks = 4,
       num_free_blocks = 0, bucket_flags_offset = 64, buckets_offset = 72,
       freelist_offset = 584, data_offset = 616, data_tail = tail,
       bucket_flags = flags, buckets = bks, freelist = [0, 0, 0, 0], data = m \<rparr>"

text \<open>
  A 13-byte value, a 9-byte value, and a 17-byte value whose bytes from the third on are
  5381 as a little-endian 64-bit number followed by zeros.
\<close>

definition val17 :: "byte list" where
  "val17 = [120, 120, 5, 21, 0, 0, 0, 0, 0, 0, 0, 0, 0, 0, 0, 0, 0]"

definition val13 :: "byte list" where
  "val13 = [122, 122, 122, 122, 122, 122, 122, 122, 122, 122, 122, 122, 122]"

definition val9 :: "byte list" where
  "val9 = [120, 120, 120, 120, 120, 120, 120, 120, 120]"

text \<open>
  The arena after each call of the examples.  In the first family \<open>a\<close>, \<open>b\<close> and \<open>c\<close> are
  written at 136, 164 and 192 (records of 28, 28 and 40 bytes); a deleted record's first
  8 bytes receive the size that \<open>add_free_block\<close> stores.
\<close>

definition mem_a :: "u64 \<Rightarrow> byte" where
  "mem_a = write_record (\<lambda>a. 0) 136 [97] 1 [120]"

definition mem_ab :: "u64 \<Rightarrow> byte" where
  "mem_ab = write_record mem_a 164 [98] 1 [121]"

definition mem_abc :: "u64 \<Rightarrow> byte" where
  "mem_abc = write_record mem_ab 192 [99] 1 val13"

definition mem_del_a :: "u64 \<Rightarrow> byte" where
  "mem_del_a = store64 mem_abc 136 36"

definition mem_del_a_ins_d :: "u64 \<Rightarrow> byte" where
  "mem_del_a_ins_d = write_record mem_del_a 136 [100] 1 val9"

definition mem_del_ab :: "u64 \<Rightarrow> byte" where
  "mem_del_ab = store64 mem_del_a 164 36"

definition mem_del_abc :: "u64 \<Rightarrow> byte" where
  "mem_del_abc = store64 mem_del_ab 192 48"

definition mem_del_abc_ins_d :: "u64 \<Rightarrow> byte" where
  "mem_del_abc_ins_d = write_record mem_del_abc 136 [100] 1 val9"

definition mem_del_c :: "u64 \<Rightarrow> byte" where
  "mem_del_c = store64 mem_abc 192 48"

definition mem_del_c_split :: "u64 \<Rightarrow> byte" where
  "mem_del_c_split = store64 mem_del_c 220 28"

definition mem_a_del_a :: "u64 \<Rightarrow> byte" where
  "mem_a_del_a = store64 mem_a 136 36"

text \<open>
  In the second family \<open>a\<close>, \<open>d\<close> and \<open>c\<close> are written at 136, 164 and 192, and \<open>a\<close> is
  then set twice more, with the 9-byte and the 17-byte value: each time its old record
  goes to the freelist and the new one is written in its place, at 136.
\<close>

definition mem_ad :: "u64 \<Rightarrow> byte" where
  "mem_ad = write_record mem_a 164 [100] 1 [120]"

definition mem_adc :: "u64 \<Rightarrow> byte" where
  "mem_adc = write_record mem_ad 192 [99] 1 val13"

definition mem_adc_a9 :: "u64 \<Rightarrow> byte" where
  "mem_adc_a9 = write_record (store64 mem_adc 136 36) 136 [97] 1 val9"

definition mem_adc_a17 :: "u64 \<Rightarrow> byte" where
  "mem_adc_a17 = write_record (store64 mem_adc_a9 136 44) 136 [97] 1 val17"

definition mem_adc_del_empty :: "u64 \<Rightarrow> byte" where
  "mem_adc_del_empty = store64 mem_adc_a17 164 35"

text \<open>The fresh arena after \<open>hm_insert(m, "ab", 1, "x", 1)\<close>.\<close>

definition mem_ab_len_1 :: "u64 \<Rightarrow> byte" where
  "mem_ab_len_1 = write_record (\<lambda>a. 0) 136 [97, 98] 1 [120]"

text \<open>The arena of the 64-bucket region after the key \<open>A\<close> is set, and set again.\<close>

definition mem64_A :: "u64 \<Rightarrow> byte" where
  "mem64_A = write_record (\<lambda>a. 0) 616 [65] 1 [120]"

definition mem64_AA :: "u64 \<Rightarrow> byte" where
  "mem64_AA = write_record mem64_A 644 [65] 1 [121]"

declare add_search.simps [simp del] add_sort.simps [simp del] add_shift.simps [simp del]
  remove_shift.simps [simp del] find_search.simps [simp del] find_loop.simps [simp del]

section \<open>Reading the arena after a write\<close>

text \<open>
  A byte read after \<open>memcpy\<close>, after a 64-bit store and after the writes of a whole
  record, by the distance of the address from the start of the write.  The distance is
  taken in 64-bit arithmetic, as the pointers are.
\<close>

lemma length_le_bytes [simp]: "length (le_bytes n w) = n"
  by (induction n arbitrary: w) simp_all

lemma le_word_le_bytes: "le_word (le_bytes n w) = take_bit (8 * n) w"
proof (induction n arbitrary: w)
  case 0
  then show ?case by simp
next
  case (Suc n)
  have "ucast (ucast w :: byte) OR push_bit 8 (take_bit (8 * n) (drop_bit 8 w))
          = take_bit (8 * Suc n) w"
    by (rule bit_eqI) (auto simp add: bit_simps)
  then show ?case by (simp add: Suc)
qed

lemma le_bytes_8: "le_bytes 8 w = [ucast w, ucast (drop_bit 8 w), ucast (drop_bit 16 w),
    ucast (drop_bit 24 w), ucast (drop_bit 32 w), ucast (drop_bit 40 w), ucast (drop_bit 48 w),
    ucast (drop_bit 56 w)]"
  by (simp add: eval_nat_numeral drop_bit_drop_bit)

lemma unat_sub_succ: "x \<noteq> a \<Longrightarrow> unat (x - (a + 1)) = unat (x - a) - 1" for x a :: u64
proof -
  assume "x \<noteq> a"
  then have "x - a \<noteq> 0" by simp
  then have "unat (x - a - 1) = unat (x - a) - 1" by (rule unat_minus_one)
  then show ?thesis by (simp add: diff_diff_eq)
qed

lemma write_bytes_apply:
  "length bs < 2 ^ 64 \<Longrightarrow>
   write_bytes m a bs x = (if unat (x - a) < length bs then bs ! unat (x - a) else m x)"
proof (induction bs arbitrary: m a)
  case Nil
  then show ?case by simp
next
  case (Cons b bs)
  then have len: "length bs < 2 ^ 64" by simp
  show ?case
  proof (cases "x = a")
    case True
    have "unat (x - (a + 1)) = 2 ^ 64 - 1"
      using True by (simp add: unsigned_minus_1_eq_mask mask_eq_exp_minus_1)
    with len have "\<not> unat (x - (a + 1)) < length bs" by simp
    then have "write_bytes (m(a := b)) (a + 1) bs x = (m(a := b)) x"
      by (simp add: Cons.IH [OF len])
    with True show ?thesis by simp
  next
    case False
    then have "unat (x - a) \<noteq> 0" by (simp add: unat_eq_zero)
    with False len show ?thesis
      by (auto simp add: Cons.IH [OF len] unat_sub_succ nth_Cons split: nat.splits)
  qed
qed

lemma store64_apply:
  "store64 m a w x = (if unat (x - a) < 8 then le_bytes 8 w ! unat (x - a) else m x)"
  by (simp add: store64_def write_bytes_apply)

lemma load64_store64: "load64 (store64 m a w) a = w"
proof -
  have "load64 (store64 m a w) a = le_word (le_bytes 8 w)"
    by (simp add: load64_def store64_apply le_bytes_8)
  also have "\<dots> = take_bit LENGTH(64) w" by (simp add: le_word_le_bytes)
  finally show ?thesis by (simp only: take_bit_length_eq)
qed

lemma le_word_bytes_8:
  "le_word [ucast w, ucast (drop_bit 8 w), ucast (drop_bit 16 w), ucast (drop_bit 24 w),
     ucast (drop_bit 32 w), ucast (drop_bit 40 w), ucast (drop_bit 48 w), ucast (drop_bit 56 w)] = w"
proof -
  have "le_word (le_bytes 8 w) = take_bit LENGTH(64) w" by (simp add: le_word_le_bytes)
  then show ?thesis by (simp only: take_bit_length_eq le_bytes_8)
qed

lemma off_sub:
  "unat (x - (a + c)) =
     (if unat c \<le> unat (x - a) then unat (x - a) - unat c else unat (x - a) + 2 ^ 64 - unat c)"
  for x a c :: u64
proof -
  have eq: "x - (a + c) = (x - a) - c" by simp
  have "unat ((x - a) - c) =
     (if unat c \<le> unat (x - a) then unat (x - a) - unat c
      else unat (x - a) + 2 ^ size (x - a) - unat c)"
    by (rule unat_sub_if_size)
  then show ?thesis by (simp only: eq word_size) simp
qed

lemma off_eq: "(x = a + c) = (unat (x - a) = unat c)" for x a c :: u64
proof -
  have "(x = a + c) = (x - a = c)" by auto
  then show ?thesis by (simp add: word_unat_eq_iff)
qed

lemma unat_lt_64: "unat (w :: u64) < 2 ^ 64"
  using unsigned_less [of w, where ?'a = nat] by simp

lemma unat_of_nat_64: "n < 2 ^ 64 \<Longrightarrow> unat (of_nat n :: u64) = n"
  by (simp add: unat_of_nat)

lemma write_record_key_apply:
  assumes "key_len \<le> length key" and "key_len + 26 < 2 ^ 64"
  shows "write_record_key m newr key key_len vlen x =
     (if unat (x - newr) < 8 then le_bytes 8 (hash_string key) ! unat (x - newr)
      else if unat (x - newr) < 16 then le_bytes 8 (of_nat key_len) ! (unat (x - newr) - 8)
      else if unat (x - newr) < 24 then le_bytes 8 (of_nat vlen) ! (unat (x - newr) - 16)
      else if unat (x - newr) < 24 + key_len then key ! (unat (x - newr) - 24)
      else if unat (x - newr) = 24 + key_len then 0
      else m x)"
proof -
  have ukl: "unat (of_nat key_len :: u64) = key_len"
    using assms by (simp add: unat_of_nat_64)
  have "unat (24 :: u64) + unat (of_nat key_len :: u64) < 2 ^ LENGTH(64)"
    using assms by (simp add: ukl)
  then have u24: "unat (24 + of_nat key_len :: u64) = 24 + key_len"
    by (simp add: unat_add_lem [THEN iffD1] ukl)
  have assoc: "newr + 24 + of_nat key_len = newr + (24 + of_nat key_len)"
    by simp
  have len: "length (take key_len key) = key_len"
    using assms(1) by simp
  show ?thesis
    unfolding write_record_key_def Let_def hm_get_record_key_def sizeof_record_def assoc
    using assms unat_lt_64 [of "x - newr"]
    by (auto simp add: off_eq off_sub u24 write_bytes_apply store64_apply len)
qed

lemma key_size_written:
  assumes "key_len \<le> length key" and "key_len + 26 < 2 ^ 64"
  shows "r_key_size (write_record_key m newr key key_len vlen) newr = of_nat key_len"
  using assms le_word_bytes_8 [of "of_nat key_len"]
  by (simp add: r_key_size_def load64_def write_record_key_apply le_bytes_8)

lemma write_record_apply:
  assumes "key_len \<le> length key" and "key_len + length val + 26 < 2 ^ 64"
  shows "write_record m newr key key_len val x =
     (if unat (x - newr) < 8 then le_bytes 8 (hash_string key) ! unat (x - newr)
      else if unat (x - newr) < 16 then le_bytes 8 (of_nat key_len) ! (unat (x - newr) - 8)
      else if unat (x - newr) < 24 then le_bytes 8 (of_nat (length val)) ! (unat (x - newr) - 16)
      else if unat (x - newr) < 24 + key_len then key ! (unat (x - newr) - 24)
      else if unat (x - newr) = 24 + key_len then 0
      else if unat (x - newr) < 25 + key_len + length val
        then val ! (unat (x - newr) - (25 + key_len))
      else if unat (x - newr) = 25 + key_len + length val then 0
      else m x)"
proof -
  have k26: "key_len + 26 < 2 ^ 64" using assms by simp
  have ukl: "unat (of_nat key_len :: u64) = key_len"
    using assms by (simp add: unat_of_nat_64)
  have uvl: "unat (of_nat (length val) :: u64) = length val"
    using assms by (simp add: unat_of_nat_64)
  have "unat (25 :: u64) + unat (of_nat key_len :: u64) < 2 ^ LENGTH(64)"
    using assms by (simp add: ukl)
  then have u25: "unat (25 + of_nat key_len :: u64) = 25 + key_len"
    by (simp add: unat_add_lem [THEN iffD1] ukl)
  have "unat (25 + of_nat key_len :: u64) + unat (of_nat (length val) :: u64)
          < 2 ^ LENGTH(64)"
    using assms by (simp add: u25 uvl)
  then have u25v: "unat (25 + of_nat key_len + of_nat (length val) :: u64)
                     = 25 + key_len + length val"
    by (simp add: unat_add_lem [THEN iffD1] u25 uvl)
  have ptr: "hm_get_record_value (write_record_key m newr key key_len (length val)) newr
               = newr + (25 + of_nat key_len)"
    by (simp add: hm_get_record_value_def hm_get_record_key_def sizeof_record_def
        key_size_written [OF assms(1) k26])
  have assoc: "newr + (25 + of_nat key_len) + of_nat (length val)
                 = newr + (25 + of_nat key_len + of_nat (length val))"
    by simp
  show ?thesis
    unfolding write_record_def Let_def ptr assoc
    using assms unat_lt_64 [of "x - newr"]
    by (auto simp add: off_eq off_sub u25 u25v write_bytes_apply
        write_record_key_apply [OF assms(1) k26])
qed

text \<open>The hash field of a record just written holds what \<open>hash_string\<close> returned.\<close>

lemma r_hash_write_record:
  assumes "key_len \<le> length key" and "key_len + length val + 26 < 2 ^ 64"
  shows "r_hash (write_record m newr key key_len val) newr = hash_string key"
  using assms le_word_bytes_8 [of "hash_string key"]
  by (simp add: r_hash_def load64_def write_record_apply le_bytes_8)

section \<open>Evaluating the model on the examples\<close>

lemma replicate_4: "replicate 4 x = [x, x, x, x]"
  by (simp add: eval_nat_numeral)

lemmas calc_defs = hm_init_def hm_calc_required_memory_size_def calc_counts_def
  calc_by_record_def calc_by_memory_def get_aligned_size_def stat_zero_def sizeof_header_def
  sizeof_record_def Let_def

lemma hm_init_64:
  "hm_init True True 1024 64 4 = Inr (region64 616 [0] (replicate 64 0) (\<lambda>a. 0))"
  by (simp add: calc_defs region64_def replicate_4)

lemma hm_init_4:
  "hm_init True True 232 4 4 = Inr (region4 232 136 0 [0] [0, 0, 0, 0] [0, 0, 0, 0] (\<lambda>a. 0))"
  by (simp add: calc_defs region4_def replicate_4)

lemmas eval_defs = hm_insert_def place_record_def find_record_def find_loop.simps
  home_index_def hash_string_def is_used_bucket_def set_used_bits_def unset_used_bits_def
  int_shl1_def record_matches_def r_hash_def r_key_size_def r_value_size_def
  hm_get_record_key_def hm_get_record_value_def hm_get_record_size_def sizeof_record_def
  SIZE_MAX_def has_empty_free_block_def hm_delete_def hm_search_def add_free_block_def
  add_free_block_left_def add_search.simps add_sort.simps add_shift.simps remove_shift.simps
  remove_free_block_def find_search.simps find_free_block_def load64_def region4_def
  region64_def write_record_apply store64_apply le_bytes_8 Let_def val13_def val9_def
  val17_def value_bytes_def

lemmas mem_defs = mem_a_def mem_ab_def mem_abc_def mem_del_a_def mem_del_a_ins_d_def
  mem_del_ab_def mem_del_abc_def mem_del_abc_ins_d_def mem_del_c_def mem_del_c_split_def
  mem_a_del_a_def mem_ad_def mem_adc_def mem_adc_a9_def mem_adc_a17_def
  mem_adc_del_empty_def mem_ab_len_1_def mem64_A_def mem64_AA_def

section \<open>The used-flag bits\<close>

text \<open>
  C2.  The claim: for every bucket index, setting the used flag and then reading it
  yields 1, also for indices with \<open>i mod 64 \<ge> 32\<close>, because the mask is a 64-bit 1
  shifted by \<open>i mod 64\<close>.  The code shifts the \<open>int\<close> constant 1: in the fresh 64-bucket
  region, \<open>set_used_bits\<close> at index 32 sets bit 0 of the flags word, and \<open>is_used_bucket\<close>
  at index 32 then reads 0.
\<close>

theorem C2_set_used_bit_32_reads_0:
  "(case hm_init True True 1024 64 4 of
      Inl e \<Rightarrow> False
    | Inr reg \<Rightarrow> bucket_flags (set_used_bits reg 32) = [1]
                 \<and> is_used_bucket (set_used_bits reg 32) 32 = 0)"
  by (simp add: hm_init_64 region64_def set_used_bits_def is_used_bucket_def int_shl1_def)

text \<open>
  For the indices whose bit lies in the low half of its word the operations do what
  their names say: a set bit reads 1 up to bit 30, a cleared bit reads 0 up to bit 31.
\<close>

lemma set_used_then_is_used:
  assumes "bucket_index mod 64 < 31"
      and "bucket_index div 64 < length (bucket_flags reg)"
  shows "is_used_bucket (set_used_bits reg bucket_index) bucket_index = 1"
proof -
  let ?k = "bucket_index mod 64"
  have k32: "?k mod 32 = ?k" using assms(1) by simp
  have "bit (scast (push_bit ?k (1 :: i32)) :: u64) ?k"
    using assms(1) by (simp add: bit_simps)
  then have "bit (bucket_flags reg ! (bucket_index div 64)
                   OR (scast (push_bit ?k (1 :: i32)) :: u64)) ?k"
    by (simp add: bit_simps)
  then have "drop_bit ?k (bucket_flags reg ! (bucket_index div 64)
                   OR (scast (push_bit ?k (1 :: i32)) :: u64)) AND 1 = 1"
    by (simp add: and_one_eq bit_iff_odd_drop_bit mod_2_eq_odd)
  with assms(2) show ?thesis
    by (simp add: is_used_bucket_def set_used_bits_def int_shl1_def k32)
qed

lemma unset_used_then_is_used:
  assumes "bucket_index mod 64 < 32"
      and "bucket_index div 64 < length (bucket_flags reg)"
  shows "is_used_bucket (unset_used_bits reg bucket_index) bucket_index = 0"
proof -
  let ?k = "bucket_index mod 64"
  have k32: "?k mod 32 = ?k" using assms(1) by simp
  have "\<not> bit (scast (NOT (push_bit ?k (1 :: i32))) :: u64) ?k"
    using assms(1) by (simp add: bit_simps)
  then have "\<not> bit (bucket_flags reg ! (bucket_index div 64)
                   AND (scast (NOT (push_bit ?k (1 :: i32))) :: u64)) ?k"
    by (simp add: bit_simps)
  then have "drop_bit ?k (bucket_flags reg ! (bucket_index div 64)
                   AND (scast (NOT (push_bit ?k (1 :: i32))) :: u64)) AND 1 = 0"
    by (simp add: and_one_eq bit_iff_odd_drop_bit mod_2_eq_odd)
  with assms(2) show ?thesis
    by (simp add: is_used_bucket_def unset_used_bits_def int_shl1_def k32)
qed

section \<open>The worked examples, call by call\<close>

text \<open>The first family: \<open>a\<close>, \<open>b\<close>, \<open>c\<close>.\<close>

lemma insert_a:
  "hm_step (region4 232 136 0 [0] [0, 0, 0, 0] [0, 0, 0, 0] (\<lambda>a. 0))
     (Insert [97] [120])
   = Some ((HM_OK, None),
       region4 232 164 0 [4] [0, 0, 136, 0] [0, 0, 0, 0] mem_a)"
  by (simp add: eval_defs mem_defs)

lemma insert_b:
  "hm_step (region4 232 164 0 [4] [0, 0, 136, 0] [0, 0, 0, 0] mem_a)
     (Insert [98] [121])
   = Some ((HM_OK, None),
       region4 232 192 0 [12] [0, 0, 136, 164] [0, 0, 0, 0] mem_ab)"
  by (simp add: eval_defs mem_defs)

lemma insert_c:
  "hm_step (region4 232 192 0 [12] [0, 0, 136, 164] [0, 0, 0, 0] mem_ab)
     (Insert [99] val13)
   = Some ((HM_OK, None),
       region4 232 232 0 [13] [192, 0, 136, 164] [0, 0, 0, 0] mem_abc)"
  by (simp add: eval_defs mem_defs)

lemma search_b_after_insert_c:
  "hm_step (region4 232 232 0 [13] [192, 0, 136, 164] [0, 0, 0, 0] mem_abc)
     (Search [98])
   = Some ((HM_OK, Some [121]),
       region4 232 232 0 [13] [192, 0, 136, 164] [0, 0, 0, 0] mem_abc)"
  by (simp add: eval_defs mem_defs)

lemma delete_a:
  "hm_step (region4 232 232 0 [13] [192, 0, 136, 164] [0, 0, 0, 0] mem_abc)
     (Delete [97])
   = Some ((HM_OK, None),
       region4 232 232 1 [9] [192, 0, 136, 164] [136, 0, 0, 0] mem_del_a)"
  by (simp add: eval_defs mem_defs)

lemma insert_d_after_delete_a:
  "hm_step (region4 232 232 1 [9] [192, 0, 136, 164] [136, 0, 0, 0] mem_del_a)
     (Insert [100] val9)
   = Some ((HM_OK, None),
       region4 232 232 0 [11] [192, 136, 136, 164] [136, 0, 0, 0] mem_del_a_ins_d)"
  by (simp add: eval_defs mem_defs)

lemma search_b_after_insert_d:
  "hm_step (region4 232 232 0 [11] [192, 136, 136, 164] [136, 0, 0, 0] mem_del_a_ins_d)
     (Search [98])
   = Some ((HM_NOT_FOUND, None),
       region4 232 232 0 [11] [192, 136, 136, 164] [136, 0, 0, 0] mem_del_a_ins_d)"
  by (simp add: eval_defs mem_defs)

lemma delete_b:
  "hm_step (region4 232 232 1 [9] [192, 0, 136, 164] [136, 0, 0, 0] mem_del_a)
     (Delete [98])
   = Some ((HM_OK, None),
       region4 232 232 2 [1] [192, 0, 136, 164] [164, 136, 0, 0] mem_del_ab)"
  by (simp add: eval_defs mem_defs)

lemma delete_c:
  "hm_step (region4 232 232 2 [1] [192, 0, 136, 164] [164, 136, 0, 0] mem_del_ab)
     (Delete [99])
   = Some ((HM_OK, None),
       region4 232 232 3 [0] [192, 0, 136, 164] [164, 136, 192, 0] mem_del_abc)"
  by (simp add: eval_defs mem_defs)

lemma insert_d_after_delete_abc:
  "hm_step (region4 232 232 3 [0] [192, 0, 136, 164] [164, 136, 192, 0] mem_del_abc)
     (Insert [100] val9)
   = Some ((HM_OK, None),
       region4 232 232 2 [2] [192, 136, 136, 164] [164, 192, 192, 0] mem_del_abc_ins_d)"
  by (simp add: eval_defs mem_defs)

lemma sizes_after_delete_abc_insert_d:
  "freelist_sizes
     (region4 232 232 2 [2] [192, 136, 136, 164] [164, 192, 192, 0] mem_del_abc_ins_d)
   = [33909456017848440, 48]"
  by (simp add: freelist_sizes_def eval_defs mem_defs)

lemma delete_c_first:
  "hm_step (region4 232 232 0 [13] [192, 0, 136, 164] [0, 0, 0, 0] mem_abc)
     (Delete [99])
   = Some ((HM_OK, None),
       region4 232 232 1 [12] [192, 0, 136, 164] [192, 0, 0, 0] mem_del_c)"
  by (simp add: eval_defs mem_defs)

lemma split_after_delete_c:
  "find_free_block (region4 232 232 1 [12] [192, 0, 136, 164] [192, 0, 0, 0] mem_del_c) 28
   = Some (192, region4 232 232 1 [12] [192, 0, 136, 164] [220, 0, 0, 0] mem_del_c_split)"
  by (simp add: eval_defs mem_defs)

lemma sizes_after_delete_c:
  "freelist_sizes (region4 232 232 1 [12] [192, 0, 136, 164] [192, 0, 0, 0] mem_del_c) = [48]"
  by (simp add: freelist_sizes_def eval_defs mem_defs)

lemma sizes_after_split:
  "freelist_sizes (region4 232 232 1 [12] [192, 0, 136, 164] [220, 0, 0, 0] mem_del_c_split)
   = [28]"
  by (simp add: freelist_sizes_def eval_defs mem_defs)

lemma delete_a_alone:
  "hm_step (region4 232 164 0 [4] [0, 0, 136, 0] [0, 0, 0, 0] mem_a)
     (Delete [97])
   = Some ((HM_OK, None),
       region4 232 164 1 [0] [0, 0, 136, 0] [136, 0, 0, 0] mem_a_del_a)"
  by (simp add: eval_defs mem_defs)

lemma probe_a_after_delete_a:
  "find_record (region4 232 164 1 [0] [0, 0, 136, 0] [136, 0, 0, 0] mem_a_del_a) [97] 1
   = Some (None, 3)"
  by (simp add: eval_defs mem_defs)

lemma home_of_a:
  "home_index (region4 232 164 1 [0] [0, 0, 136, 0] [136, 0, 0, 0] mem_a_del_a) (hash_string [97]) = 2"
  by (simp add: eval_defs mem_defs)

lemma probe_c_after_delete_a:
  "find_record (region4 232 232 1 [9] [192, 0, 136, 164] [136, 0, 0, 0] mem_del_a) [99] 1
   = Some (Some 192, 0)"
  by (simp add: eval_defs mem_defs)

lemma size_of_c_after_delete_a:
  "hm_get_record_size mem_del_a 192 = 40"
  by (simp add: eval_defs mem_defs)

lemma left_after_delete_a:
  "add_free_block_left
     (region4 232 232 1 [9] [192, 0, 136, 164] [136, 0, 0, 0] mem_del_a) 40 = 1"
  by (simp add: eval_defs mem_defs)

text \<open>The second family: \<open>a\<close>, \<open>d\<close>, \<open>c\<close>, and \<open>a\<close> set twice more.\<close>

lemma insert_d_after_a:
  "hm_step (region4 232 164 0 [4] [0, 0, 136, 0] [0, 0, 0, 0] mem_a)
     (Insert [100] [120])
   = Some ((HM_OK, None),
       region4 232 192 0 [6] [0, 164, 136, 0] [0, 0, 0, 0] mem_ad)"
  by (simp add: eval_defs mem_defs)

lemma insert_c_after_ad:
  "hm_step (region4 232 192 0 [6] [0, 164, 136, 0] [0, 0, 0, 0] mem_ad)
     (Insert [99] val13)
   = Some ((HM_OK, None),
       region4 232 232 0 [7] [192, 164, 136, 0] [0, 0, 0, 0] mem_adc)"
  by (simp add: eval_defs mem_defs)

lemma search_empty_after_adc:
  "hm_step (region4 232 232 0 [7] [192, 164, 136, 0] [0, 0, 0, 0] mem_adc)
     (Search [])
   = Some ((HM_NOT_FOUND, None),
       region4 232 232 0 [7] [192, 164, 136, 0] [0, 0, 0, 0] mem_adc)"
  by (simp add: eval_defs mem_defs)

lemma search_d_after_adc:
  "hm_step (region4 232 232 0 [7] [192, 164, 136, 0] [0, 0, 0, 0] mem_adc)
     (Search [100])
   = Some ((HM_OK, Some [120]),
       region4 232 232 0 [7] [192, 164, 136, 0] [0, 0, 0, 0] mem_adc)"
  by (simp add: eval_defs mem_defs)

lemma set_a_9_bytes:
  "hm_step (region4 232 232 0 [7] [192, 164, 136, 0] [0, 0, 0, 0] mem_adc)
     (Insert [97] val9)
   = Some ((HM_OK, None),
       region4 232 232 0 [7] [192, 164, 136, 0] [136, 0, 0, 0] mem_adc_a9)"
  by (simp add: eval_defs mem_defs)

lemma set_a_17_bytes:
  "hm_step (region4 232 232 0 [7] [192, 164, 136, 0] [136, 0, 0, 0] mem_adc_a9)
     (Insert [97] val17)
   = Some ((HM_OK, None),
       region4 232 232 0 [7] [192, 164, 136, 0] [136, 0, 0, 0] mem_adc_a17)"
  by (simp add: eval_defs mem_defs)

lemma delete_empty_key_call:
  "hm_delete True (region4 232 232 0 [7] [192, 164, 136, 0] [136, 0, 0, 0] mem_adc_a17) [] 0
   = Some (HM_OK, region4 232 232 1 [5] [192, 164, 136, 0] [164, 0, 0, 0] mem_adc_del_empty)"
  by (simp add: eval_defs mem_defs)

lemma sizes_after_delete_empty:
  "freelist_sizes (region4 232 232 1 [5] [192, 164, 136, 0] [164, 0, 0, 0] mem_adc_del_empty)
   = [35]"
  by (simp add: freelist_sizes_def eval_defs mem_defs)

text \<open>The key \<open>a\<close> passed as the first byte of the buffer \<open>ab\<close>.\<close>

lemma insert_ab_len_1:
  "hm_insert True (region4 232 136 0 [0] [0, 0, 0, 0] [0, 0, 0, 0] (\<lambda>a. 0)) [97, 98] 1 [120]
   = Some (HM_OK, region4 232 164 0 [1] [136, 0, 0, 0] [0, 0, 0, 0] mem_ab_len_1)"
  by (simp add: eval_defs mem_defs)

lemma hash_ab_len_1:
  "r_hash (data (region4 232 164 0 [1] [136, 0, 0, 0] [0, 0, 0, 0] mem_ab_len_1)) 136 = 5863208"
  by (simp add: region4_def eval_defs mem_defs)

lemma key_size_ab_len_1:
  "r_key_size (data (region4 232 164 0 [1] [136, 0, 0, 0] [0, 0, 0, 0] mem_ab_len_1)) 136 = 1"
  by (simp add: region4_def eval_defs mem_defs)

lemma key_bytes_ab_len_1:
  "read_bytes (data (region4 232 164 0 [1] [136, 0, 0, 0] [0, 0, 0, 0] mem_ab_len_1))
     (hm_get_record_key 136) 1 = [97]"
  by (simp add: region4_def eval_defs mem_defs)

lemma search_a_after_ab_len_1:
  "hm_search True (region4 232 164 0 [1] [136, 0, 0, 0] [0, 0, 0, 0] mem_ab_len_1) [97] 1
   = Some (HM_NOT_FOUND, None)"
  by (simp add: eval_defs mem_defs)

text \<open>The 64-bucket region and the key \<open>A\<close>.\<close>

lemma insert_A:
  "hm_step (region64 616 [0] (replicate 64 0) (\<lambda>a. 0))
     (Insert [65] [120])
   = Some ((HM_OK, None),
       region64 644 [64] ((replicate 64 0)[38 := 616]) mem64_A)"
  by (simp add: eval_defs mem_defs)

lemma insert_A_again:
  "hm_step (region64 644 [64] ((replicate 64 0)[38 := 616]) mem64_A)
     (Insert [65] [121])
   = Some ((HM_OK, None),
       region64 672 [192] ((replicate 64 0)[38 := 616, 39 := 644]) mem64_AA)"
  by (simp add: eval_defs mem_defs)

lemmas script_defs = hm_script_def hm_init_4 hm_init_64 hm_run.simps
  option.case prod.case sum.case option.map list.map fst_conv

section \<open>Search after insert\<close>

text \<open>
  C1.  The claim: a key inserted by a successful \<open>hm_insert\<close> and not deleted or
  overwritten since is found by \<open>hm_search\<close>, with the value of its latest insert.
  The run below, on a region of 232 bytes with 4 buckets, inserts \<open>a\<close>, \<open>b\<close> and \<open>c\<close>,
  which fills the arena, and finds \<open>b\<close> with its value \<open>y\<close>.  It then deletes \<open>a\<close> and
  inserts \<open>d\<close> with a 9-byte value; both calls return \<open>HM_OK\<close>.  The record of \<open>a\<close> was
  28 bytes long, its free block is stored with size 36, and the 36-byte record of \<open>d\<close> is
  placed in it: its last 8 bytes overwrite the hash of \<open>b\<close>, the next record.  The
  search for \<open>b\<close>, which was never deleted or overwritten, now returns \<open>HM_NOT_FOUND\<close>.
\<close>

theorem C1_inserted_key_not_found:
  "map_option fst
     (hm_script 232 4 4
        [Insert [97] [120], Insert [98] [121], Insert [99] val13, Search [98], Delete [97],
         Insert [100] val9, Search [98]])
   = Some [(HM_OK, None), (HM_OK, None), (HM_OK, None), (HM_OK, Some [121]), (HM_OK, None),
           (HM_OK, None), (HM_NOT_FOUND, None)]"
  by (simp only: script_defs insert_a insert_b insert_c search_b_after_insert_c
      delete_a insert_d_after_delete_a search_b_after_insert_d)

section \<open>Splitting a free block\<close>

text \<open>
  C3.  The claim: when \<open>find_free_block\<close> splits a block, the tail is re-inserted with
  payload remainder \<open>- 8\<close>, so that its stored size equals the remainder and it lies inside
  the original block.  After \<open>a\<close>, \<open>b\<close>, \<open>c\<close> are inserted and \<open>c\<close> deleted, the
  freelist holds one block, at 192, stored with size 48.  \<open>find_free_block\<close> for 28 bytes
  splits it: the remainder is 20, and the tail block, at 220, is stored with size 28, the
  remainder plus 8.  It ends at 248, beyond the original block (which ends at 240 by its
  stored size) and beyond the region (232 bytes).
\<close>

theorem C3_split_tail_stored_size:
  "(case hm_script 232 4 4 [Insert [97] [120], Insert [98] [121], Insert [99] val13, Delete [99]] of
      None \<Rightarrow> False
    | Some (es, reg) \<Rightarrow>
        take (nat (num_free_blocks reg)) (freelist reg) = [192] \<and> freelist_sizes reg = [48]
        \<and> memory_size reg = 232
        \<and> (case find_free_block reg 28 of
              None \<Rightarrow> False
            | Some (offset, reg1) \<Rightarrow>
                offset = 192
                \<and> take (nat (num_free_blocks reg1)) (freelist reg1) = [220]
                \<and> freelist_sizes reg1 = [28]))"
  by (simp only: script_defs insert_a insert_b insert_c delete_c_first split_after_delete_c
      sizes_after_delete_c sizes_after_split)
     (simp add: region4_def)

section \<open>Probing past a freed slot\<close>

text \<open>
  C4.  The claim: when a probe meets a slot with a non-zero offset and a clear used bit
  before any slot with offset zero, it goes on, and the earliest such slot is the
  insertion candidate reported.  After \<open>a\<close> is inserted and deleted, slot 2, the home
  slot of \<open>a\<close>, has offset 136 and a clear used bit.  The probe for \<open>a\<close> does go on, but
  it reports slot 3, the first slot with offset zero, not slot 2.
\<close>

theorem C4_candidate_is_not_the_tombstone:
  "(case hm_script 232 4 4 [Insert [97] [120], Delete [97]] of
      None \<Rightarrow> False
    | Some (es, reg) \<Rightarrow>
        map fst es = [HM_OK, HM_OK]
        \<and> home_index reg (hash_string [97]) = 2
        \<and> buckets reg ! 2 = 136 \<and> is_used_bucket reg 2 = 0
        \<and> buckets reg ! 3 = 0
        \<and> find_record reg [97] 1 = Some (None, 3))"
  by (simp only: script_defs insert_a delete_a_alone probe_a_after_delete_a home_of_a)
     (simp add: region4_def is_used_bucket_def)

section \<open>Invariants after successful calls\<close>

text \<open>
  C7.  The claim: after every successful call the tail stays between the arena start and
  the region size, the freelist count stays within its capacity, the freelist is sorted
  ascending by the stored sizes of its blocks, and the number of used bits equals the
  number of live keys.  The run below inserts \<open>a\<close>, \<open>b\<close>, \<open>c\<close>, deletes them in the same
  order and inserts \<open>d\<close> with a 9-byte value; all seven calls return \<open>HM_OK\<close>.  The
  record of \<open>d\<close> takes the block at 136 and runs 8 bytes into the block at 164, over its
  stored size.  The two blocks left in the freelist then have the stored sizes
  33909456017848440 and 48, in this order: the freelist is not sorted.
\<close>

theorem C7_freelist_not_sorted:
  "(case hm_script 232 4 4
           [Insert [97] [120], Insert [98] [121], Insert [99] val13, Delete [97],
            Delete [98], Delete [99], Insert [100] val9] of
      None \<Rightarrow> False
    | Some (es, reg) \<Rightarrow>
        map fst es = [HM_OK, HM_OK, HM_OK, HM_OK, HM_OK, HM_OK, HM_OK]
        \<and> num_free_blocks reg = 2
        \<and> freelist_sizes reg = [33909456017848440, 48])"
  by (simp only: script_defs insert_a insert_b insert_c delete_a delete_b delete_c
      insert_d_after_delete_abc sizes_after_delete_abc_insert_d)
     (simp add: region4_def)

text \<open>
  The two bounds of the header are kept by every \<open>hm_insert\<close> and \<open>hm_delete\<close> that
  returns, whatever it returns.
\<close>

lemma add_free_block_bounds:
  assumes "add_free_block reg offset sz = Some reg1"
  shows "memory_size reg1 = memory_size reg \<and> data_offset reg1 = data_offset reg
       \<and> data_tail reg1 = data_tail reg \<and> max_free_blocks reg1 = max_free_blocks reg
       \<and> num_free_blocks reg1 \<le> max_free_blocks reg"
  using assms
  by (auto simp add: add_free_block_def has_empty_free_block_def Let_def split: if_splits)

lemma remove_free_block_bounds:
  "memory_size (remove_free_block reg idx) = memory_size reg"
  "data_offset (remove_free_block reg idx) = data_offset reg"
  "data_tail (remove_free_block reg idx) = data_tail reg"
  "max_free_blocks (remove_free_block reg idx) = max_free_blocks reg"
  "num_free_blocks (remove_free_block reg idx) = num_free_blocks reg - 1"
  by (simp_all add: remove_free_block_def)

lemma find_free_block_bounds:
  assumes "find_free_block reg required_space = Some (offset, reg1)"
      and "num_free_blocks reg \<le> max_free_blocks reg"
  shows "memory_size reg1 = memory_size reg \<and> data_offset reg1 = data_offset reg
       \<and> data_tail reg1 = data_tail reg \<and> max_free_blocks reg1 = max_free_blocks reg
       \<and> num_free_blocks reg1 \<le> max_free_blocks reg"
  using assms
  by (auto simp add: find_free_block_def remove_free_block_bounds Let_def
      dest!: add_free_block_bounds split: if_splits sum.splits option.splits)

lemma set_used_bits_bounds: "region_bounds (set_used_bits reg b) = region_bounds reg"
  by (simp add: region_bounds_def set_used_bits_def)

lemma tail_advance:
  fixes tail msize required off :: u64
  assumes "off \<le> tail" and "tail \<le> msize" and "\<not> msize - tail < required"
  shows "off \<le> tail + required \<and> tail + required \<le> msize"
proof -
  from assms(2) have "unat (msize - tail) = unat msize - unat tail"
    by (simp add: unat_sub)
  with assms(3) have le: "unat tail + unat required \<le> unat msize"
    using assms(2) by (simp add: word_less_nat_alt word_le_nat_alt)
  moreover have "unat msize < 2 ^ 64" by (rule unat_lt_64)
  ultimately have "unat (tail + required) = unat tail + unat required"
    by (simp add: unat_add_lem [THEN iffD1])
  with le assms(1) show ?thesis
    by (simp add: word_le_nat_alt)
qed

lemma place_record_bounds:
  assumes "place_record reg b key key_len val = Some (e, reg1)" and "region_bounds reg"
  shows "region_bounds reg1"
proof (cases "memory_size reg - data_tail reg
                < sizeof_record + of_nat key_len + of_nat (length val) + 2")
  case True
  with assms show ?thesis
    by (auto simp add: place_record_def region_bounds_def set_used_bits_def Let_def
        dest!: find_free_block_bounds split: if_splits option.splits)
next
  case False
  from assms(2) have "data_offset reg \<le> data_tail reg" "data_tail reg \<le> memory_size reg"
    by (simp_all add: region_bounds_def)
  from tail_advance [OF this False] False assms show ?thesis
    by (auto simp add: place_record_def region_bounds_def set_used_bits_def Let_def)
qed

lemma data_update_bounds: "region_bounds (reg\<lparr>data := m\<rparr>) = region_bounds reg"
  by (simp add: region_bounds_def)

lemma hm_insert_bounds:
  assumes "hm_insert lock_ok reg key key_len val = Some (e, reg1)" and "region_bounds reg"
  shows "region_bounds reg1"
proof -
  have add: "region_bounds reg0"
    if "add_free_block reg offset sz = Some reg0" for reg0 offset sz
    using add_free_block_bounds [OF that] assms(2) by (simp add: region_bounds_def)
  from assms show ?thesis
    by (auto simp add: hm_insert_def data_update_bounds
        dest: place_record_bounds add
        split: if_splits option.splits prod.splits)
qed

lemma hm_delete_bounds:
  assumes "hm_delete lock_ok reg key key_len = Some (e, reg1)" and "region_bounds reg"
  shows "region_bounds reg1"
proof -
  have add: "region_bounds (unset_used_bits reg0 b)"
    if "add_free_block reg offset sz = Some reg0" for reg0 offset sz b
    using add_free_block_bounds [OF that] assms(2)
    by (simp add: region_bounds_def unset_used_bits_def)
  from assms show ?thesis
    by (auto simp add: hm_delete_def dest: add split: if_splits option.splits prod.splits)
qed

section \<open>Setting a key twice with values of one length\<close>

text \<open>
  C8.  The claim: when a set of a key succeeds and the key is set again with a value of
  the same length, the second set overwrites the value in place and leaves \<open>data_tail\<close>,
  the freelist and the bucket slots unchanged.  In the region with 64 buckets the key
  \<open>A\<close> (byte 65) has home slot 38.  The first set writes the record at 616 and moves the
  tail to 644; \<open>set_used_bits\<close> at index 38 sets bit 6.  The second set does not find
  the key, since \<open>is_used_bucket\<close> reads bit 38: it writes a second record at 644, takes
  slot 39 and moves the tail to 672.
\<close>

theorem C8_same_size_set_is_not_in_place:
  "(case hm_script 1024 64 4 [Insert [65] [120]] of
      None \<Rightarrow> False
    | Some (es, reg) \<Rightarrow> map fst es = [HM_OK] \<and> data_tail reg = 644 \<and> buckets reg ! 39 = 0)
   \<and> (case hm_script 1024 64 4 [Insert [65] [120], Insert [65] [121]] of
      None \<Rightarrow> False
    | Some (es, reg) \<Rightarrow>
        map fst es = [HM_OK, HM_OK] \<and> data_tail reg = 672 \<and> buckets reg ! 39 = 644)"
  by (simp only: script_defs insert_A insert_A_again)
     (simp add: region64_def)

text \<open>
  When \<open>find_record\<close> does find the key, with a value of the same length, \<open>hm_insert\<close>
  copies the value over the old one and changes nothing else.
\<close>

lemma hm_insert_in_place:
  assumes "find_record reg key key_len = Some (Some r, b)"
      and "r_value_size (data reg) r = of_nat (length val)"
  shows "hm_insert True reg key key_len val =
           Some (HM_OK, reg\<lparr> data := write_bytes (data reg) (hm_get_record_value (data reg) r) val \<rparr>)"
  using assms by (simp add: hm_insert_def)

section \<open>The insertion point of \<open>add_free_block\<close>\<close>

text \<open>
  C10.  The claim: whenever \<open>add_free_block\<close> compares the new block's end with
  \<open>freelist[left]\<close>, the index \<open>left\<close> is below \<open>num_free_blocks\<close>.  After \<open>a\<close>, \<open>b\<close>,
  \<open>c\<close> are inserted and \<open>a\<close> deleted, the freelist holds one block, of stored size 36.
  Deleting \<open>c\<close> calls \<open>add_free_block\<close> with the record of \<open>c\<close>, at 192 and 40 bytes long,
  while the freelist is not full.  The binary search ends with \<open>left\<close> equal to
  \<open>num_free_blocks\<close>, and the comparison that follows reads \<open>freelist[left]\<close>.
\<close>

theorem C10_insertion_point_equals_count:
  "(case hm_script 232 4 4 [Insert [97] [120], Insert [98] [121], Insert [99] val13, Delete [97]] of
      None \<Rightarrow> False
    | Some (es, reg) \<Rightarrow>
        num_free_blocks reg = 1 \<and> max_free_blocks reg = 4
        \<and> find_record reg [99] 1 = Some (Some 192, 0)
        \<and> hm_get_record_size (data reg) 192 = 40
        \<and> add_free_block_left reg 40 = num_free_blocks reg)"
  by (simp only: script_defs insert_a insert_b insert_c delete_a probe_c_after_delete_a
      left_after_delete_a)
     (simp add: region4_def size_of_c_after_delete_a)

section \<open>Layout sizes\<close>

lemma calc_counts_fields:
  "st_header_size (calc_counts s nb nf) = sizeof_header"
  "st_bucket_flags_size (calc_counts s nb nf) = scast (ucast ((nb + 63) div 64) :: i32) * 8"
  "st_buckets_size (calc_counts s nb nf) = nb * 8"
  "st_free_blocks_size (calc_counts s nb nf) = nf * 8"
  "st_max_buckets (calc_counts s nb nf) = ucast nb"
  "st_record_header_size (calc_counts s nb nf) = sizeof_record + 2"
  "st_record_size (calc_counts s nb nf) = st_record_size s"
  "st_data_size (calc_counts s nb nf) = st_data_size s"
  "st_memory_size (calc_counts s nb nf) =
     sizeof_header + scast (ucast ((nb + 63) div 64) :: i32) * 8 + nb * 8 + nf * 8"
  by (simp_all add: calc_counts_def Let_def)

lemma calc_by_record_fields:
  "st_header_size (calc_by_record s kv) = st_header_size s"
  "st_bucket_flags_size (calc_by_record s kv) = st_bucket_flags_size s"
  "st_buckets_size (calc_by_record s kv) = st_buckets_size s"
  "st_free_blocks_size (calc_by_record s kv) = st_free_blocks_size s"
  "st_max_buckets (calc_by_record s kv) = st_max_buckets s"
  "st_record_header_size (calc_by_record s kv) = st_record_header_size s"
  "st_record_size (calc_by_record s kv) =
     (if kv = 0 then st_record_size s else st_record_header_size s + kv)"
  "st_data_size (calc_by_record s kv) =
     (if kv = 0 then st_data_size s
      else (st_record_header_size s + kv) * scast (st_max_buckets s))"
  "st_memory_size (calc_by_record s kv) =
     (if kv = 0 then st_memory_size s
      else st_memory_size s + (st_record_header_size s + kv) * scast (st_max_buckets s))"
  by (simp_all add: calc_by_record_def Let_def)

lemma calc_by_memory_fields:
  "st_header_size (calc_by_memory s msize) = st_header_size s"
  "st_bucket_flags_size (calc_by_memory s msize) = st_bucket_flags_size s"
  "st_buckets_size (calc_by_memory s msize) = st_buckets_size s"
  "st_free_blocks_size (calc_by_memory s msize) = st_free_blocks_size s"
  "st_max_buckets (calc_by_memory s msize) = st_max_buckets s"
  "st_memory_size (calc_by_memory s msize) = st_memory_size s"
  "st_data_size (calc_by_memory s msize) =
     (if msize = 0 then st_data_size s
      else if st_memory_size s < msize then msize - st_memory_size s else 0)"
  "st_record_size (calc_by_memory s msize) =
     (if msize = 0 then st_record_size s
      else if st_memory_size s < msize
           then (msize - st_memory_size s) div st_record_header_size s else 0)"
  by (simp_all add: calc_by_memory_def Let_def)

lemmas calc_fields = calc_counts_fields calc_by_record_fields calc_by_memory_fields

lemma calc_1000_4_4_10:
  "hm_calc_required_memory_size stat_zero 1000 4 4 10 =
     (HM_OK, stat_zero\<lparr> st_memory_size := 280, st_max_bucket_flags := 1, st_max_buckets := 4,
        st_max_free_blocks := 4, st_bucket_flags_size := 8, st_buckets_size := 32,
        st_free_blocks_size := 32, st_header_size := 64, st_data_size := 720,
        st_record_header_size := 26, st_record_size := 27 \<rparr>)"
  by (simp add: calc_defs)

lemma calc_0_4_4_10:
  "hm_calc_required_memory_size stat_zero 0 4 4 10 =
     (HM_OK, stat_zero\<lparr> st_memory_size := 280, st_max_bucket_flags := 1, st_max_buckets := 4,
        st_max_free_blocks := 4, st_bucket_flags_size := 8, st_buckets_size := 32,
        st_free_blocks_size := 32, st_header_size := 64, st_data_size := 144,
        st_record_header_size := 26, st_record_size := 36 \<rparr>)"
  by (simp add: calc_defs)

text \<open>
  C5.  The claim: with \<open>record_kv_size > 0\<close> the reported \<open>record_size\<close> is the record
  header plus 2 plus \<open>record_kv_size\<close> and \<open>data_size\<close> is \<open>record_size\<close> times
  \<open>max_buckets\<close>, the computation from \<open>memory_size\<close> applying only when
  \<open>record_kv_size = 0\<close>.  With a memory size of 1000, 4 buckets, 4 free blocks and
  \<open>record_kv_size = 10\<close> the call reports \<open>record_size = 27\<close> and \<open>data_size = 720\<close>, not
  36 and 144.
\<close>

theorem C5_memory_size_overrides_record_size:
  "fst (hm_calc_required_memory_size stat_zero 1000 4 4 10) = HM_OK
   \<and> st_record_size (snd (hm_calc_required_memory_size stat_zero 1000 4 4 10))
       \<noteq> sizeof_record + 2 + 10
   \<and> st_data_size (snd (hm_calc_required_memory_size stat_zero 1000 4 4 10))
       \<noteq> st_record_size (snd (hm_calc_required_memory_size stat_zero 1000 4 4 10))
           * scast (st_max_buckets (snd (hm_calc_required_memory_size stat_zero 1000 4 4 10)))"
  by (simp add: calc_1000_4_4_10 sizeof_record_def)

text \<open>
  C5, as amended.  With \<open>memory_size = 0\<close> and \<open>record_kv_size > 0\<close> the reported
  \<open>record_size\<close> is the record header plus 2 plus \<open>record_kv_size\<close> and \<open>data_size\<close> is
  \<open>record_size\<close> times \<open>max_buckets\<close>.  Whenever \<open>memory_size > 0\<close>, whatever
  \<open>record_kv_size\<close> is, \<open>data_size\<close> is what \<open>memory_size\<close> leaves above the required
  total (0 when it leaves nothing) and \<open>record_size\<close> is \<open>data_size\<close> divided by the
  record header plus 2.  The required total is the fixed overhead plus, when
  \<open>record_kv_size > 0\<close>, the data size of the records; the reported \<open>memory_size\<close> is that
  total, aligned.
\<close>

theorem C5_record_and_data_size:
  assumes "hm_calc_required_memory_size s msize nbuckets nfree kv = (HM_OK, s')"
  shows "st_record_size s' =
           (if msize = 0
            then (if kv = 0 then st_record_size s else sizeof_record + 2 + kv)
            else st_data_size s' div (sizeof_record + 2))
       \<and> st_data_size s' =
           (if msize = 0
            then (if kv = 0 then st_data_size s
                  else st_record_size s' * scast (st_max_buckets s'))
            else if fixed_overhead s' + record_data_size s' kv < msize
                 then msize - (fixed_overhead s' + record_data_size s' kv)
                 else 0)
       \<and> st_memory_size s' = get_aligned_size (fixed_overhead s' + record_data_size s' kv)"
proof -
  from assms have ok: "\<not> (nbuckets = 0 \<and> msize = 0)"
    by (auto simp add: hm_calc_required_memory_size_def)
  with assms have s': "s' = snd (hm_calc_required_memory_size s msize nbuckets nfree kv)"
    by simp
  show ?thesis
    unfolding s' using ok
    by (simp add: hm_calc_required_memory_size_def Let_def fixed_overhead_def
        record_data_size_def calc_fields)
qed

theorem C5_record_and_data_size_witness:
  "fst (hm_calc_required_memory_size stat_zero 1000 4 4 10) = HM_OK
   \<and> st_record_size (snd (hm_calc_required_memory_size stat_zero 1000 4 4 10)) = 720 div 26
   \<and> st_data_size (snd (hm_calc_required_memory_size stat_zero 1000 4 4 10)) = 1000 - 280
   \<and> fst (hm_calc_required_memory_size stat_zero 0 4 4 10) = HM_OK
   \<and> st_record_size (snd (hm_calc_required_memory_size stat_zero 0 4 4 10)) = 24 + 2 + 10
   \<and> st_data_size (snd (hm_calc_required_memory_size stat_zero 0 4 4 10)) = 36 * 4"
proof -
  let ?s1 = "snd (hm_calc_required_memory_size stat_zero 1000 4 4 10)"
  let ?s2 = "snd (hm_calc_required_memory_size stat_zero 0 4 4 10)"
  have h1: "hm_calc_required_memory_size stat_zero 1000 4 4 10 = (HM_OK, ?s1)"
    by (simp add: calc_1000_4_4_10)
  have h2: "hm_calc_required_memory_size stat_zero 0 4 4 10 = (HM_OK, ?s2)"
    by (simp add: calc_0_4_4_10)
  have f1: "fixed_overhead ?s1 + record_data_size ?s1 10 = 280"
    by (simp add: calc_1000_4_4_10 fixed_overhead_def record_data_size_def sizeof_record_def)
  have m2: "st_max_buckets ?s2 = 4"
    by (simp add: calc_0_4_4_10)
  from C5_record_and_data_size [OF h1] C5_record_and_data_size [OF h2] f1 m2
  show ?thesis
    by (simp add: sizeof_record_def calc_1000_4_4_10 calc_0_4_4_10)
qed

section \<open>The hash of a key\<close>

text \<open>
  What \<open>hash_string\<close> computes: the bytes of the buffer before its first zero byte, each
  sign-extended, folded into \<open>h * 33 + c\<close> from 5381.  The length of the key is not among
  its arguments.
\<close>

lemma hash_loop_foldl:
  "hash_loop h key = foldl (\<lambda>h c. h * 33 + scast c) h (takeWhile (\<lambda>c. c \<noteq> 0) key)"
proof (induction key arbitrary: h)
  case Nil
  then show ?case by simp
next
  case (Cons c key)
  show ?case
  proof (cases "c = 0")
    case True
    then show ?thesis by simp
  next
    case False
    have eq: "push_bit 5 h + h + scast c = h * 33 + scast c"
      by (simp add: push_bit_eq_mult)
    have "hash_loop h (c # key) = hash_loop (h * 33 + scast c) key"
      using False by (simp only: hash_loop.simps eq if_False)
    also have "\<dots> = foldl (\<lambda>h c. h * 33 + scast c) (h * 33 + scast c)
                        (takeWhile (\<lambda>c. c \<noteq> 0) key)"
      by (rule Cons.IH)
    finally show ?thesis using False by simp
  qed
qed

lemma hash_string_foldl:
  "hash_string key = foldl (\<lambda>h c. h * 33 + scast c) 5381 (takeWhile (\<lambda>c. c \<noteq> 0) key)"
  by (simp add: hash_string_def hash_loop_foldl)

text \<open>
  C6.  The claim: for every key, an opaque byte string of explicit length \<open>key_len\<close> with
  no restriction on zero bytes, the hash stored in the record and used for probing is the
  64-bit djb2 hash of all \<open>key_len\<close> bytes of the key.  On a fresh region of 232 bytes
  with 4 buckets, \<open>hm_insert\<close> is called with the buffer \<open>ab\<close> and \<open>key_len = 1\<close>, that
  is with the key \<open>a\<close>.  It returns \<open>HM_OK\<close> and writes a record at 136 whose key size is 1
  and whose key byte is \<open>a\<close>, but whose hash is 5863208, the hash of the two bytes \<open>ab\<close>,
  and the record sits in slot 0, the home slot of that hash; the djb2 hash of the one key
  byte is 177670.  \<open>hm_search\<close> for the key \<open>a\<close>, given as the buffer \<open>a\<close> with
  \<open>key_len = 1\<close>, then returns \<open>HM_NOT_FOUND\<close>.  Two more disagreements of
  \<open>hash_string\<close> with the hash of the key bytes: the byte 255 enters the hash as \<open>-1\<close>,
  and the bytes after a zero byte do not enter it at all.
\<close>

theorem C6_stored_hash_ignores_key_len:
  "(case hm_init True True 232 4 4 of
      Inl e \<Rightarrow> False
    | Inr reg \<Rightarrow>
        (case hm_insert True reg [97, 98] 1 [120] of
           None \<Rightarrow> False
         | Some (e, reg1) \<Rightarrow>
             e = HM_OK \<and> buckets reg1 = [136, 0, 0, 0]
             \<and> r_key_size (data reg1) 136 = 1
             \<and> read_bytes (data reg1) (hm_get_record_key 136) 1 = [97]
             \<and> r_hash (data reg1) 136 = 5863208
             \<and> djb2_64 (take 1 [97, 98]) = 177670
             \<and> hm_search True reg1 [97] 1 = Some (HM_NOT_FOUND, None)))
   \<and> hash_string [255] = 177572 \<and> djb2_64 [255] = 177828
   \<and> hash_string [97, 0, 98] = 177670 \<and> djb2_64 [97, 0, 98] = 193482728"
  by (simp only: hm_init_4 sum.case insert_ab_len_1 option.case prod.case
      search_a_after_ab_len_1 hash_ab_len_1 key_size_ab_len_1 key_bytes_ab_len_1)
     (simp add: region4_def hash_string_def djb2_64_def)

section \<open>Deleting a key that is not there\<close>

text \<open>
  C9.  The claim: for every key not present in the map, \<open>hm_delete\<close> returns
  \<open>HM_NOT_FOUND\<close> and leaves every byte of the region unchanged.  On a region of 232
  bytes with 4 buckets the run below inserts \<open>a\<close>, \<open>d\<close> and \<open>c\<close>, which fills the arena
  (records at 136, 164 and 192), and searches for the empty key, which is not found.  It
  then sets \<open>a\<close> to a value of 9 bytes and to a value of 17 bytes; both calls return
  \<open>HM_OK\<close>.  Each frees the record of \<open>a\<close> at 136 and, the block being stored 8 bytes
  larger than the record, writes the longer record into it: the second one, 44 bytes long,
  runs over the hash and the key size of the record of \<open>d\<close> at 164, and leaves there the
  bytes 5, 21 and fourteen zeros, that is the hash 5381 of the empty key and the key size
  0.  The empty key was never inserted.  \<open>hm_delete\<close> of the empty key now returns
  \<open>HM_OK\<close>: it puts the record of \<open>d\<close> on the freelist and clears the used bit of its
  slot.
\<close>

theorem C9_delete_of_absent_key_returns_ok:
  "(case hm_script 232 4 4
           [Insert [97] [120], Insert [100] [120], Insert [99] val13, Search [],
            Insert [97] val9, Insert [97] val17] of
      None \<Rightarrow> False
    | Some (es, reg) \<Rightarrow>
        map fst es = [HM_OK, HM_OK, HM_OK, HM_NOT_FOUND, HM_OK, HM_OK]
        \<and> buckets reg = [192, 164, 136, 0] \<and> bucket_flags reg = [7]
        \<and> num_free_blocks reg = 0
        \<and> (case hm_delete True reg [] 0 of
              None \<Rightarrow> False
            | Some (e, reg1) \<Rightarrow>
                e = HM_OK \<and> num_free_blocks reg1 = 1 \<and> freelist reg1 ! 0 = 164
                \<and> bucket_flags reg1 = [5] \<and> is_used_bucket reg1 1 = 0))"
  by (simp only: script_defs insert_a insert_d_after_a insert_c_after_ad search_empty_after_adc
      set_a_9_bytes set_a_17_bytes delete_empty_key_call)
     (simp add: region4_def is_used_bucket_def)

text \<open>
  When \<open>hm_delete\<close> does return \<open>HM_NOT_FOUND\<close>, it has changed nothing.
\<close>

lemma hm_delete_not_found_unchanged:
  assumes "hm_delete lock_ok reg key key_len = Some (HM_NOT_FOUND, reg1)"
  shows "reg1 = reg"
  using assms
  by (auto simp add: hm_delete_def split: if_splits option.splits prod.splits)

end
